theory Spec2Isabelle
  imports Main
begin

section \<open>Rows of the relational store\<close>

text \<open>
  The checkout worker keeps no state of its own: every handler reads and writes the tables
  of the relational store. A table is a list of rows, in storage order. Nullable columns
  are options. Cent amounts and quantities are SQL INTEGERs, modelled as unbounded
  integers. Timestamps (ISO-8601 UTC strings in the source, which sort like the instants
  they denote) are natural numbers.
\<close>

record product =
  p_id :: string
  p_seller_id :: "string option"
  p_title :: string
  p_price_cents :: int
  p_status :: string

record inventory_row =
  i_product_id :: string
  i_stock :: int
  i_reserved :: int
  i_updated_at :: nat

record cart_item =
  ci_user_id :: string
  ci_product_id :: string
  ci_qty :: int
  ci_updated_at :: nat

record address =
  a_id :: string
  a_user_id :: string
  a_country :: string
  a_is_default_shipping :: int
  a_created_at :: nat

record shipping_method =
  m_id :: string
  m_name :: string
  m_zone :: string
  m_speed :: string
  m_base_cents :: int
  m_free_over_cents :: "int option"
  m_active :: int

record order_row =
  o_id :: string
  o_user_id :: string
  o_status :: string
  o_subtotal_cents :: int
  o_shipping_cents :: int
  o_tax_cents :: int
  o_total_cents :: int
  o_currency :: string
  o_shipping_address_id :: string
  o_billing_address_id :: string
  o_shipping_method_id :: string
  o_created_at :: nat
  o_updated_at :: nat

record order_item =
  oi_id :: string
  oi_order_id :: string
  oi_product_id :: string
  oi_title_snapshot :: string
  oi_price_cents :: int
  oi_qty :: int

record db =
  products :: "product list"
  inventory :: "inventory_row list"
  cart_items :: "cart_item list"
  addresses :: "address list"
  shipping_methods :: "shipping_method list"
  orders :: "order_row list"
  order_items :: "order_item list"

section \<open>Responses\<close>

text \<open>
  Every early \<open>return json({ ok: false, ... }, { status })\<close> of the handlers is one
  constructor; \<open>InternalError\<close> is the \<open>catch (err)\<close> branch (status 500).
\<close>

datatype error =
    NotAuthenticated
  | ValidationFailed
  | ProductNotAvailable
  | OwnProduct
  | ItemNotInCart
  | RemoveTooMany int
  | OutOfStock
  | ExceedsAvailable int
  | CartEmpty
  | NoAddresses
  | NoShippingMethods string
  | InsufficientStock string int
  | ShippingAddressNotFound
  | InvalidShippingMethod
  | ZoneMismatch string string
  | InternalError

fun http_status :: "error \<Rightarrow> nat" where
  "http_status NotAuthenticated = 401"
| "http_status ValidationFailed = 400"
| "http_status ProductNotAvailable = 404"
| "http_status OwnProduct = 403"
| "http_status ItemNotInCart = 404"
| "http_status (RemoveTooMany _) = 400"
| "http_status OutOfStock = 400"
| "http_status (ExceedsAvailable _) = 400"
| "http_status CartEmpty = 400"
| "http_status NoAddresses = 400"
| "http_status (NoShippingMethods _) = 500"
| "http_status (InsufficientStock _ _) = 400"
| "http_status ShippingAddressNotFound = 400"
| "http_status InvalidShippingMethod = 400"
| "http_status (ZoneMismatch _ _) = 400"
| "http_status InternalError = 500"

section \<open>JavaScript helpers\<close>

text \<open>
  A JavaScript number is an IEEE double. The integers of magnitude up to \<open>2^53\<close> are
  doubles; a larger integer is rounded to the nearest integer with a 53-bit significand,
  ties to the even significand. \<open>js_num\<close> is that rounding (magnitudes from \<open>2^1024\<close>
  on, \<open>Infinity\<close> in the source, are beyond what the 64-bit columns of the store and a
  cart of any realistic length can produce). Sums, differences and products of doubles are
  the rounded exact results.
\<close>

function bit_length :: "int \<Rightarrow> nat" where
  "bit_length n = (if n \<le> 0 then 0 else Suc (bit_length (n div 2)))"
  by pat_completeness auto
termination
  by (relation "measure nat") auto

definition js_num :: "int \<Rightarrow> int" where
  "js_num n =
     (if \<bar>n\<bar> \<le> 2 ^ 53 then n
      else
        (let e = bit_length \<bar>n\<bar> - 53;
             q = \<bar>n\<bar> div 2 ^ e;
             r = \<bar>n\<bar> mod 2 ^ e;
             half = 2 ^ (e - 1);
             q = (if r > half \<or> (r = half \<and> odd q) then q + 1 else q)
         in sgn n * (q * 2 ^ e)))"

definition js_add :: "int \<Rightarrow> int \<Rightarrow> int" where
  "js_add a b = js_num (a + b)"

definition js_sub :: "int \<Rightarrow> int \<Rightarrow> int" where
  "js_sub a b = js_num (a - b)"

definition js_mul :: "int \<Rightarrow> int \<Rightarrow> int" where
  "js_mul a b = js_num (a * b)"

text \<open>\<open>Number(x || 0)\<close> on a nullable INTEGER column read from the store.\<close>

definition num_or0 :: "int option \<Rightarrow> int" where
  "num_or0 x = js_num (case x of None \<Rightarrow> 0 | Some n \<Rightarrow> n)"

text \<open>
  \<open>toLowerCase\<close> and \<open>toUpperCase\<close> on the ASCII letters; other characters are kept.
  The handlers compare the lower-cased speed with \<open>'standard'\<close> and \<open>'express'\<close>,
  which only ASCII strings lower-case to, so that comparison is the source's on every
  string. The upper-cased country is compared with the zone column: there the model is the
  source's on ASCII countries only, since JavaScript also maps characters outside ASCII
  (U+017F upper-cases to \<open>S\<close>).
\<close>

definition lower_char :: "char \<Rightarrow> char" where
  "lower_char c =
     (let n = (of_char c :: nat) in if 65 \<le> n \<and> n \<le> 90 then char_of (n + 32) else c)"

definition upper_char :: "char \<Rightarrow> char" where
  "upper_char c =
     (let n = (of_char c :: nat) in if 97 \<le> n \<and> n \<le> 122 then char_of (n - 32) else c)"

definition toLowerCase :: "string \<Rightarrow> string" where
  "toLowerCase s = map lower_char s"

definition toUpperCase :: "string \<Rightarrow> string" where
  "toUpperCase s = map upper_char s"

text \<open>
  \<open>Math.floor(subtotal_cents * 0.1)\<close> and \<open>Math.ceil(cost * 1.6) + 200\<close>. On integer
  amounts below \<open>2^49\<close> in magnitude the double-precision products round to the values
  of the exact integer formulas below (floor of a tenth, ceiling of eight fifths).
\<close>

definition cap_of :: "int \<Rightarrow> int" where
  "cap_of subtotal_cents = subtotal_cents div 10"

definition surcharge :: "int \<Rightarrow> int" where
  "surcharge cost = (8 * cost + 4) div 5 + 200"

text \<open>
  \<open>xs.find(P)\<close> returns a reference to the first element satisfying \<open>P\<close>; assigning to
  a field of that reference changes the element in place.
\<close>

fun update_first :: "('a \<Rightarrow> bool) \<Rightarrow> ('a \<Rightarrow> 'a) \<Rightarrow> 'a list \<Rightarrow> 'a list" where
  "update_first P f [] = []"
| "update_first P f (x # xs) = (if P x then f x # xs else x # update_first P f xs)"

section \<open>Shared reads\<close>

record cart_row =
  r_product_id :: string
  r_qty :: int
  r_title :: string
  r_price_cents :: int
  r_stock :: "int option"
  r_reserved :: "int option"

text \<open>
  \<open>SELECT ... FROM cart_items ci JOIN products p ON p.id = ci.product_id
  LEFT JOIN inventory i ON i.product_id = ci.product_id WHERE ci.user_id = ?\<close>
\<close>

definition join_cart_item :: "db \<Rightarrow> cart_item \<Rightarrow> cart_row option" where
  "join_cart_item d ci =
     (case find (\<lambda>p. p_id p = ci_product_id ci) (products d) of
        None \<Rightarrow> None
      | Some p \<Rightarrow>
          (let i = find (\<lambda>i. i_product_id i = ci_product_id ci) (inventory d)
           in Some \<lparr> r_product_id = ci_product_id ci, r_qty = ci_qty ci, r_title = p_title p,
                     r_price_cents = p_price_cents p, r_stock = map_option i_stock i,
                     r_reserved = map_option i_reserved i \<rparr>))"

definition select_cart :: "db \<Rightarrow> string \<Rightarrow> cart_row list" where
  "select_cart d uid =
     List.map_filter (join_cart_item d) (filter (\<lambda>ci. ci_user_id ci = uid) (cart_items d))"

text \<open>\<open>(shippingAddress.country || 'IN').toUpperCase()\<close>\<close>

definition zone_of :: "address \<Rightarrow> string" where
  "zone_of a = toUpperCase (if a_country a = [] then ''IN'' else a_country a)"

text \<open>\<open>SELECT ... FROM shipping_methods WHERE active = 1 AND zone = ?\<close>\<close>

definition active_methods :: "db \<Rightarrow> string \<Rightarrow> shipping_method list" where
  "active_methods d zone = filter (\<lambda>m. m_active m = 1 \<and> m_zone m = zone) (shipping_methods d)"

section \<open>GET /api/checkout/summary\<close>

record shipping_option =
  so_id :: string
  so_name :: string
  so_zone :: string
  so_speed :: string
  so_cost_cents :: int

record checkout_summary =
  cs_items :: "cart_row list"
  cs_subtotal_cents :: int
  cs_addresses :: "address list"
  cs_selected_shipping_address_id :: string
  cs_shipping_options :: "shipping_option list"

text \<open>The callback of \<open>shippingRows.results.map\<close>: base cost, free threshold, 10% cap.\<close>

definition quote_method :: "int \<Rightarrow> shipping_method \<Rightarrow> shipping_option" where
  "quote_method subtotal_cents m =
     (let cap = cap_of subtotal_cents;
          cost = m_base_cents m;
          cost = (case m_free_over_cents m of
                    Some f \<Rightarrow> if subtotal_cents \<ge> f then 0 else cost
                  | None \<Rightarrow> cost);
          cost = (if cost > 0 \<and> cap > 0 then min cost cap else cost)
      in \<lparr> so_id = m_id m, so_name = m_name m, so_zone = m_zone m, so_speed = m_speed m,
           so_cost_cents = cost \<rparr>)"

definition is_standard :: "shipping_option \<Rightarrow> bool" where
  "is_standard q = (toLowerCase (so_speed q) = ''standard'')"

definition is_express :: "shipping_option \<Rightarrow> bool" where
  "is_express q = (toLowerCase (so_speed q) = ''express'')"

text \<open>The block \<open>if (shipping_options.length >= 2) { ... }\<close>.\<close>

definition tie_break :: "shipping_option list \<Rightarrow> shipping_option list" where
  "tie_break shipping_options =
     (if length shipping_options \<ge> 2 then
        (case (find is_standard shipping_options, find is_express shipping_options) of
           (Some standard, Some express) \<Rightarrow>
             if so_cost_cents standard = so_cost_cents express \<and> so_cost_cents express > 0
             then update_first is_express
                    (\<lambda>e. e\<lparr> so_cost_cents := surcharge (so_cost_cents e) \<rparr>) shipping_options
             else shipping_options
         | _ \<Rightarrow> shipping_options)
      else shipping_options)"

text \<open>The quotes of the summary for the rows read from \<open>shipping_methods\<close>.\<close>

definition summary_quotes :: "shipping_method list \<Rightarrow> int \<Rightarrow> shipping_option list" where
  "summary_quotes shippingRows subtotal_cents =
     tie_break (map (quote_method subtotal_cents) shippingRows)"

text \<open>
  The addresses of the user, \<open>ORDER BY created_at DESC\<close>: a stable sort, rows of equal
  \<open>created_at\<close> stay in storage order. The decrypted address fields of the response play
  no part in what follows and are left out.
\<close>

definition select_addresses :: "db \<Rightarrow> string \<Rightarrow> address list" where
  "select_addresses d uid =
     sort_key (\<lambda>a. - int (a_created_at a)) (filter (\<lambda>a. a_user_id a = uid) (addresses d))"

definition summary :: "string option \<Rightarrow> db \<Rightarrow> error + checkout_summary" where
  "summary auth d =
     (case auth of
        None \<Rightarrow> Inl NotAuthenticated
      | Some uid \<Rightarrow>
          (let items = select_cart d uid in
           if items = [] then Inl CartEmpty
           else
             (let subtotal_cents =
                    foldl (\<lambda>sum item.
                             js_add sum (js_mul (js_num (r_price_cents item))
                                                (js_num (r_qty item)))) 0 items;
                  addrs = select_addresses d uid
              in case addrs of
                   [] \<Rightarrow> Inl NoAddresses
                 | first # _ \<Rightarrow>
                     (let shippingAddress =
                            (case find (\<lambda>a. a_is_default_shipping a \<noteq> 0) addrs of
                               Some a \<Rightarrow> a | None \<Rightarrow> first);
                          zone = zone_of shippingAddress;
                          shippingRows = active_methods d zone
                      in if shippingRows = [] then Inl (NoShippingMethods zone)
                         else Inr \<lparr> cs_items = items, cs_subtotal_cents = subtotal_cents,
                                    cs_addresses = addrs,
                                    cs_selected_shipping_address_id = a_id shippingAddress,
                                    cs_shipping_options =
                                      summary_quotes shippingRows subtotal_cents \<rparr>))))"

section \<open>POST /api/cart/items\<close>

datatype operation = OpSet | OpAdd | OpRemove

text \<open>
  The request body after JSON parsing. \<open>cartUpdateSchema\<close> requires a non-empty
  \<open>product_id\<close>, an integer \<open>qty\<close> from 1 to 999 and an \<open>operation\<close> among
  \<open>'set'\<close>, \<open>'add'\<close>, \<open>'remove'\<close>, defaulting to \<open>'set'\<close>.
\<close>

record cart_body =
  cb_product_id :: string
  cb_qty :: int
  cb_operation :: "operation option"

definition cartUpdateSchema :: "cart_body \<Rightarrow> (string \<times> int \<times> operation) option" where
  "cartUpdateSchema body =
     (if cb_product_id body \<noteq> [] \<and> 1 \<le> cb_qty body \<and> cb_qty body \<le> 999
      then Some (cb_product_id body, cb_qty body,
                 (case cb_operation body of None \<Rightarrow> OpSet | Some operation \<Rightarrow> operation))
      else None)"

record cart_reply =
  reply_qty :: int
  reply_available :: "int option"

text \<open>\<open>SELECT qty FROM cart_items WHERE user_id = ? AND product_id = ?\<close>, first row.\<close>

definition find_cart_item :: "db \<Rightarrow> string \<Rightarrow> string \<Rightarrow> cart_item option" where
  "find_cart_item d uid pid =
     find (\<lambda>ci. ci_user_id ci = uid \<and> ci_product_id ci = pid) (cart_items d)"

text \<open>\<open>DELETE FROM cart_items WHERE user_id = ? AND product_id = ?\<close>\<close>

definition delete_cart_item :: "string \<Rightarrow> string \<Rightarrow> db \<Rightarrow> db" where
  "delete_cart_item uid pid d =
     d\<lparr> cart_items :=
          filter (\<lambda>ci. \<not> (ci_user_id ci = uid \<and> ci_product_id ci = pid)) (cart_items d) \<rparr>"

text \<open>
  \<open>INSERT INTO cart_items ... ON CONFLICT(user_id, product_id) DO UPDATE SET qty, updated_at\<close>
\<close>

definition upsert_cart_item :: "string \<Rightarrow> string \<Rightarrow> int \<Rightarrow> nat \<Rightarrow> db \<Rightarrow> db" where
  "upsert_cart_item uid pid qty now d =
     (case find_cart_item d uid pid of
        None \<Rightarrow>
          d\<lparr> cart_items := cart_items d @
               [\<lparr> ci_user_id = uid, ci_product_id = pid, ci_qty = qty, ci_updated_at = now \<rparr>] \<rparr>
      | Some _ \<Rightarrow>
          d\<lparr> cart_items :=
               map (\<lambda>ci. if ci_user_id ci = uid \<and> ci_product_id ci = pid
                          then ci\<lparr> ci_qty := qty, ci_updated_at := now \<rparr> else ci)
                   (cart_items d) \<rparr>)"

text \<open>\<open>available = stock - reserved\<close> of the inventory row, 0 when there is none.\<close>

definition available_of :: "db \<Rightarrow> string \<Rightarrow> int" where
  "available_of d pid =
     (case find (\<lambda>i. i_product_id i = pid) (inventory d) of
        None \<Rightarrow> 0
      | Some row \<Rightarrow> i_stock row - i_reserved row)"

definition current_qty :: "db \<Rightarrow> string \<Rightarrow> string \<Rightarrow> int" where
  "current_qty d uid pid =
     (case find_cart_item d uid pid of None \<Rightarrow> 0 | Some existing \<Rightarrow> ci_qty existing)"

text \<open>
  Steps 5 to 7 of the handler, once \<open>newQty\<close> is known. The single write of the handler
  is taken to succeed.
\<close>

definition apply_new_qty ::
  "string \<Rightarrow> string \<Rightarrow> operation \<Rightarrow> int \<Rightarrow> nat \<Rightarrow> db \<Rightarrow> (error + cart_reply) \<times> db" where
  "apply_new_qty uid pid operation newQty now d =
     (let available = available_of d pid;
          existing = find_cart_item d uid pid;
          currentQty = current_qty d uid pid;
          isIncreasing = ((operation = OpSet \<or> operation = OpAdd) \<and> newQty > currentQty)
      in if isIncreasing \<and> available \<le> 0 then (Inl OutOfStock, d)
         else if isIncreasing \<and> newQty > available then (Inl (ExceedsAvailable available), d)
         else if newQty \<le> 0 then
           (Inr \<lparr> reply_qty = 0, reply_available = None \<rparr>,
            (if existing \<noteq> None then delete_cart_item uid pid d else d))
         else
           (Inr \<lparr> reply_qty = newQty, reply_available = Some available \<rparr>,
            upsert_cart_item uid pid newQty now d))"

definition updateCart ::
  "string option \<Rightarrow> cart_body \<Rightarrow> nat \<Rightarrow> db \<Rightarrow> (error + cart_reply) \<times> db" where
  "updateCart auth body now d =
     (case auth of
        None \<Rightarrow> (Inl NotAuthenticated, d)
      | Some uid \<Rightarrow>
          (case cartUpdateSchema body of
             None \<Rightarrow> (Inl ValidationFailed, d)
           | Some (product_id, qty, operation) \<Rightarrow>
               (case find (\<lambda>p. p_id p = product_id) (products d) of
                  None \<Rightarrow> (Inl ProductNotAvailable, d)
                | Some product \<Rightarrow>
                    if p_status product \<noteq> ''active'' then (Inl ProductNotAvailable, d)
                    else if p_seller_id product \<noteq> None \<and> p_seller_id product \<noteq> Some []
                            \<and> p_seller_id product = Some uid
                    then (Inl OwnProduct, d)
                    else
                      (let existing = find_cart_item d uid product_id;
                           currentQty = current_qty d uid product_id
                       in case operation of
                            OpSet \<Rightarrow> apply_new_qty uid product_id operation qty now d
                          | OpAdd \<Rightarrow>
                              apply_new_qty uid product_id operation (currentQty + qty) now d
                          | OpRemove \<Rightarrow>
                              if existing = None then (Inl ItemNotInCart, d)
                              else if qty > currentQty then (Inl (RemoveTooMany currentQty), d)
                              else apply_new_qty uid product_id operation (currentQty - qty)
                                     now d))))"

section \<open>POST /api/checkout/place-order\<close>

text \<open>
  The request body after JSON parsing. \<open>checkoutPlaceSchema\<close> requires the two shipping
  ids to be non-empty strings; \<open>billing_address_id\<close> is optional and, when present, a
  non-empty string (\<open>Joi.string()\<close> rejects the empty string).
\<close>

record place_body =
  pb_shipping_method_id :: "string option"
  pb_shipping_address_id :: "string option"
  pb_billing_address_id :: "string option"

definition checkoutPlaceSchema :: "place_body \<Rightarrow> (string \<times> string \<times> string option) option" where
  "checkoutPlaceSchema body =
     (case (pb_shipping_method_id body, pb_shipping_address_id body) of
        (Some mid, Some aid) \<Rightarrow>
          if mid \<noteq> [] \<and> aid \<noteq> [] \<and> pb_billing_address_id body \<noteq> Some []
          then Some (mid, aid, pb_billing_address_id body) else None
      | _ \<Rightarrow> None)"

text \<open>
  Step 2, the loop computing the subtotal and validating the stock of every line; the
  first line with \<open>qty > available\<close> ends the request.
\<close>

fun check_stock :: "cart_row list \<Rightarrow> int \<Rightarrow> error + int" where
  "check_stock [] subtotal_cents = Inr subtotal_cents"
| "check_stock (item # items) subtotal_cents =
     (let price = js_num (r_price_cents item);
          qty = js_num (r_qty item);
          available = js_sub (num_or0 (r_stock item)) (num_or0 (r_reserved item))
      in if qty > available then Inl (InsufficientStock (r_product_id item) available)
         else check_stock items (js_add subtotal_cents (js_mul price qty)))"

text \<open>Step 5, the shipping charged for the chosen method.\<close>

definition place_shipping_cents :: "db \<Rightarrow> string \<Rightarrow> shipping_method \<Rightarrow> int \<Rightarrow> int" where
  "place_shipping_cents d zone shippingMethod subtotal_cents =
     (let shipping_cents = m_base_cents shippingMethod;
          shipping_cents =
            (case m_free_over_cents shippingMethod of
               Some f \<Rightarrow> if subtotal_cents \<ge> f then 0 else shipping_cents
             | None \<Rightarrow> shipping_cents);
          shipping_cents =
            (if toLowerCase (m_speed shippingMethod) = ''express'' \<and> shipping_cents > 0 then
               (case find (\<lambda>r. toLowerCase (m_speed r) = ''standard'') (active_methods d zone) of
                  None \<Rightarrow> shipping_cents
                | Some computedPeer \<Rightarrow>
                    (let peerCost = m_base_cents computedPeer;
                         peerCost =
                           (case m_free_over_cents computedPeer of
                              Some f \<Rightarrow> if subtotal_cents \<ge> f then 0 else peerCost
                            | None \<Rightarrow> peerCost);
                         capPeer = cap_of subtotal_cents;
                         peerCost =
                           (if peerCost > 0 \<and> capPeer > 0 then min peerCost capPeer else peerCost)
                     in if peerCost = shipping_cents \<and> shipping_cents > 0
                        then surcharge shipping_cents else shipping_cents))
             else shipping_cents);
          cap = cap_of subtotal_cents
      in if shipping_cents > 0 \<and> cap > 0 then min shipping_cents cap else shipping_cents)"

subsection \<open>The commit sequence\<close>

definition insert_order :: "order_row \<Rightarrow> db \<Rightarrow> db" where
  "insert_order ord d = d\<lparr> orders := orders d @ [ord] \<rparr>"

definition insert_order_item :: "order_item \<Rightarrow> db \<Rightarrow> db" where
  "insert_order_item oi d = d\<lparr> order_items := order_items d @ [oi] \<rparr>"

text \<open>\<open>UPDATE inventory SET stock = stock - ?, updated_at = ? WHERE product_id = ?\<close>\<close>

definition decrement_stock :: "string \<Rightarrow> int \<Rightarrow> nat \<Rightarrow> db \<Rightarrow> db" where
  "decrement_stock pid qty now d =
     d\<lparr> inventory :=
          map (\<lambda>i. if i_product_id i = pid
                    then i\<lparr> i_stock := i_stock i - qty, i_updated_at := now \<rparr> else i)
              (inventory d) \<rparr>"

text \<open>\<open>DELETE FROM cart_items WHERE user_id = ?\<close>\<close>

definition clear_cart :: "string \<Rightarrow> db \<Rightarrow> db" where
  "clear_cart uid d = d\<lparr> cart_items := filter (\<lambda>ci. ci_user_id ci \<noteq> uid) (cart_items d) \<rparr>"

text \<open>
  The statements of the commit are awaited one after the other inside one \<open>try\<close> block,
  with no transaction around them. A statement that throws ends the handler in the
  \<open>catch\<close> branch. \<open>fail\<close> is the storage's behaviour: \<open>Some k\<close> when the write number
  \<open>k\<close> of the request throws (the order insert is write 0, the order item and the stock
  update of line \<open>j\<close> are writes \<open>2 * j + 1\<close> and \<open>2 * j + 2\<close>, the cart clear is the
  last), \<open>None\<close> when every write succeeds. \<open>uuid\<close> stands for \<open>crypto.randomUUID()\<close>:
  \<open>uuid 0\<close> is the order id, \<open>uuid (j + 1)\<close> the id of the order item of line \<open>j\<close>.
  The result is the store the handler leaves, and whether the sequence completed.
\<close>

fun commit_items ::
  "nat option \<Rightarrow> (nat \<Rightarrow> string) \<Rightarrow> nat \<Rightarrow> string \<Rightarrow> nat \<Rightarrow> cart_row list \<Rightarrow> db \<Rightarrow> bool \<times> db" where
  "commit_items fail uuid now orderId j [] d = (True, d)"
| "commit_items fail uuid now orderId j (item # items) d =
     (if fail = Some (2 * j + 1) then (False, d)
      else
        (let d1 = insert_order_item
                    \<lparr> oi_id = uuid (j + 1), oi_order_id = orderId,
                      oi_product_id = r_product_id item, oi_title_snapshot = r_title item,
                      oi_price_cents = r_price_cents item, oi_qty = r_qty item \<rparr> d
         in if fail = Some (2 * j + 2) then (False, d1)
            else commit_items fail uuid now orderId (j + 1) items
                   (decrement_stock (r_product_id item) (r_qty item) now d1)))"

definition commit ::
  "nat option \<Rightarrow> (nat \<Rightarrow> string) \<Rightarrow> nat \<Rightarrow> string \<Rightarrow> order_row \<Rightarrow> cart_row list \<Rightarrow> db \<Rightarrow> bool \<times> db" where
  "commit fail uuid now uid ord items d =
     (if fail = Some 0 then (False, d)
      else
        (case commit_items fail uuid now (o_id ord) 0 items (insert_order ord d) of
           (False, d') \<Rightarrow> (False, d')
         | (True, d') \<Rightarrow>
             if fail = Some (2 * length items + 1) then (False, d')
             else (True, clear_cart uid d')))"

record order_reply =
  or_id :: string
  or_status :: string
  or_subtotal_cents :: int
  or_shipping_cents :: int
  or_tax_cents :: int
  or_total_cents :: int
  or_currency :: string
  or_shipping_method :: "string \<times> string \<times> string"
  or_shipping_address_id :: string
  or_billing_address_id :: string

text \<open>
  The handler. Its reads are taken to succeed (the \<open>try\<close> around the peer lookup of
  step 5 then never reaches its empty \<open>catch\<close>). The notifications of step 9 are
  dispatched after the commit, their failures are ignored and they write nothing to the
  store, so they do not appear.
\<close>

definition placeOrder ::
  "nat option \<Rightarrow> (nat \<Rightarrow> string) \<Rightarrow> nat \<Rightarrow> string option \<Rightarrow> place_body \<Rightarrow> db
     \<Rightarrow> (error + order_reply) \<times> db" where
  "placeOrder fail uuid now auth body d =
     (case auth of
        None \<Rightarrow> (Inl NotAuthenticated, d)
      | Some uid \<Rightarrow>
     (case checkoutPlaceSchema body of
        None \<Rightarrow> (Inl ValidationFailed, d)
      | Some (shipping_method_id, shipping_address_id, billing) \<Rightarrow>
     (let items = select_cart d uid in
      if items = [] then (Inl CartEmpty, d)
      else
     (case check_stock items 0 of
        Inl e \<Rightarrow> (Inl e, d)
      | Inr subtotal_cents \<Rightarrow>
     (case find (\<lambda>a. a_id a = shipping_address_id \<and> a_user_id a = uid) (addresses d) of
        None \<Rightarrow> (Inl ShippingAddressNotFound, d)
      | Some shippingAddress \<Rightarrow>
     (let zone = zone_of shippingAddress in
      case find (\<lambda>m. m_id m = shipping_method_id \<and> m_active m = 1) (shipping_methods d) of
        None \<Rightarrow> (Inl InvalidShippingMethod, d)
      | Some shippingMethod \<Rightarrow>
          if m_zone shippingMethod \<noteq> zone
          then (Inl (ZoneMismatch (m_zone shippingMethod) zone), d)
          else
            (let shipping_cents = place_shipping_cents d zone shippingMethod subtotal_cents;
                 tax_cents = 0;
                 total_cents = js_add subtotal_cents shipping_cents;
                 orderId = uuid 0;
                 billing_address_id =
                   (case billing of
                      None \<Rightarrow> a_id shippingAddress
                    | Some b \<Rightarrow> if b = [] then a_id shippingAddress else b);
                 ord = \<lparr> o_id = orderId, o_user_id = uid, o_status = ''placed'',
                         o_subtotal_cents = subtotal_cents, o_shipping_cents = shipping_cents,
                         o_tax_cents = tax_cents, o_total_cents = total_cents,
                         o_currency = ''USD'', o_shipping_address_id = a_id shippingAddress,
                         o_billing_address_id = billing_address_id,
                         o_shipping_method_id = m_id shippingMethod,
                         o_created_at = now, o_updated_at = now \<rparr>
             in case commit fail uuid now uid ord items d of
                  (False, d') \<Rightarrow> (Inl InternalError, d')
                | (True, d') \<Rightarrow>
                    (Inr \<lparr> or_id = orderId, or_status = ''placed'',
                           or_subtotal_cents = subtotal_cents,
                           or_shipping_cents = shipping_cents, or_tax_cents = tax_cents,
                           or_total_cents = total_cents, or_currency = ''USD'',
                           or_shipping_method =
                             (m_id shippingMethod, m_name shippingMethod, m_speed shippingMethod),
                           or_shipping_address_id = a_id shippingAddress,
                           or_billing_address_id = billing_address_id \<rparr>, d'))))))))"

section \<open>Notions used in the statements\<close>

subsection \<open>Cart\<close>

text \<open>The data-model invariant of cart lines: a stored line has a quantity of at least 1.\<close>

definition cart_ok :: "db \<Rightarrow> bool" where
  "cart_ok d = list_all (\<lambda>ci. 1 \<le> ci_qty ci) (cart_items d)"

text \<open>The stored quantity of a user's line for a product, \<open>None\<close> when there is no line.\<close>

definition line_qty :: "db \<Rightarrow> string \<Rightarrow> string \<Rightarrow> int option" where
  "line_qty d uid pid = map_option ci_qty (find_cart_item d uid pid)"

text \<open>
  The quantity a request asks for, in the words of the specification: \<open>set\<close> gives
  \<open>qty\<close>, \<open>add\<close> gives \<open>current + qty\<close>, \<open>remove\<close> gives \<open>current - qty\<close>.
\<close>

definition new_qty :: "db \<Rightarrow> string \<Rightarrow> cart_body \<Rightarrow> int" where
  "new_qty d uid body =
     (let current = current_qty d uid (cb_product_id body)
      in case cb_operation body of
           None \<Rightarrow> cb_qty body
         | Some OpSet \<Rightarrow> cb_qty body
         | Some OpAdd \<Rightarrow> current + cb_qty body
         | Some OpRemove \<Rightarrow> current - cb_qty body)"

text \<open>
  A session of cart requests of authenticated users: each request runs on the store the
  previous one left. The trace keeps, for every request, the store before it, the reply
  and the store after it.
\<close>

fun cart_session ::
  "db \<Rightarrow> (string \<times> cart_body \<times> nat) list
      \<Rightarrow> ((string \<times> cart_body \<times> nat) \<times> db \<times> (error + cart_reply) \<times> db) list" where
  "cart_session d [] = []"
| "cart_session d ((uid, body, now) # reqs) =
     (let (reply, d') = updateCart (Some uid) body now d
      in ((uid, body, now), d, reply, d') # cart_session d' reqs)"

subsection \<open>Shipping\<close>


subsection \<open>Place-order\<close>

text \<open>
  The order row bound by the \<open>INSERT INTO orders\<close> of step 6 and the \<open>order\<close> object of
  the response, as functions of the values the handler has computed when it reaches the
  commit.
\<close>

definition make_order ::
  "(nat \<Rightarrow> string) \<Rightarrow> nat \<Rightarrow> string \<Rightarrow> string option \<Rightarrow> address \<Rightarrow> shipping_method
     \<Rightarrow> int \<Rightarrow> int \<Rightarrow> order_row" where
  "make_order uuid now uid billing shippingAddress shippingMethod subtotal_cents shipping_cents =
     \<lparr> o_id = uuid 0, o_user_id = uid, o_status = ''placed'',
       o_subtotal_cents = subtotal_cents, o_shipping_cents = shipping_cents,
       o_tax_cents = 0, o_total_cents = js_add subtotal_cents shipping_cents,
       o_currency = ''USD'', o_shipping_address_id = a_id shippingAddress,
       o_billing_address_id =
         (case billing of None \<Rightarrow> a_id shippingAddress
                        | Some b \<Rightarrow> if b = [] then a_id shippingAddress else b),
       o_shipping_method_id = m_id shippingMethod,
       o_created_at = now, o_updated_at = now \<rparr>"

definition make_reply :: "order_row \<Rightarrow> shipping_method \<Rightarrow> order_reply" where
  "make_reply ord shippingMethod =
     \<lparr> or_id = o_id ord, or_status = ''placed'',
       or_subtotal_cents = o_subtotal_cents ord,
       or_shipping_cents = o_shipping_cents ord, or_tax_cents = 0,
       or_total_cents = o_total_cents ord, or_currency = ''USD'',
       or_shipping_method = (m_id shippingMethod, m_name shippingMethod, m_speed shippingMethod),
       or_shipping_address_id = o_shipping_address_id ord,
       or_billing_address_id = o_billing_address_id ord \<rparr>"

text \<open>
  The writes of the commit in the order of the specification: the order row, then for
  each cart line its order item and its stock decrement, then the cart clear.
\<close>

definition item_writes ::
  "(nat \<Rightarrow> string) \<Rightarrow> nat \<Rightarrow> string \<Rightarrow> nat \<Rightarrow> cart_row list \<Rightarrow> (db \<Rightarrow> db) list" where
  "item_writes uuid now orderId j items =
     concat (map (\<lambda>(j, item).
                    [insert_order_item
                       \<lparr> oi_id = uuid (j + 1), oi_order_id = orderId,
                         oi_product_id = r_product_id item, oi_title_snapshot = r_title item,
                         oi_price_cents = r_price_cents item, oi_qty = r_qty item \<rparr>,
                     decrement_stock (r_product_id item) (r_qty item) now])
                 (enumerate j items))"

definition commit_writes ::
  "(nat \<Rightarrow> string) \<Rightarrow> nat \<Rightarrow> string \<Rightarrow> order_row \<Rightarrow> cart_row list \<Rightarrow> (db \<Rightarrow> db) list" where
  "commit_writes uuid now uid ord items =
     insert_order ord # item_writes uuid now (o_id ord) 0 items @ [clear_cart uid]"

definition apply_writes :: "(db \<Rightarrow> db) list \<Rightarrow> db \<Rightarrow> db" where
  "apply_writes ws d = fold (\<lambda>w. w) ws d"

section \<open>Example stores\<close>

text \<open>
  One buyer \<open>u1\<close> with three units of a product priced 500 in the cart (subtotal 1500,
  cap 150), one address in zone \<open>US\<close>, and a standard and an express method of base
  cost 5000 each.
\<close>

definition example_std :: shipping_method where
  "example_std =
     \<lparr> m_id = ''std'', m_name = ''Standard'', m_zone = ''US'', m_speed = ''standard'',
       m_base_cents = 5000, m_free_over_cents = Some 200000, m_active = 1 \<rparr>"

definition example_exp :: shipping_method where
  "example_exp =
     \<lparr> m_id = ''exp'', m_name = ''Express'', m_zone = ''US'', m_speed = ''express'',
       m_base_cents = 5000, m_free_over_cents = None, m_active = 1 \<rparr>"

definition example_eco :: shipping_method where
  "example_eco =
     \<lparr> m_id = ''eco'', m_name = ''Economy'', m_zone = ''US'', m_speed = ''standard'',
       m_base_cents = 100, m_free_over_cents = None, m_active = 1 \<rparr>"

definition example_free :: shipping_method where
  "example_free =
     \<lparr> m_id = ''free'', m_name = ''Free over 10'', m_zone = ''US'', m_speed = ''express'',
       m_base_cents = 5000, m_free_over_cents = Some 1000, m_active = 1 \<rparr>"

definition example_store :: db where
  "example_store =
     \<lparr> products = [\<lparr> p_id = ''p1'', p_seller_id = Some ''s1'', p_title = ''Mug'',
                      p_price_cents = 500, p_status = ''active'' \<rparr>],
       inventory = [\<lparr> i_product_id = ''p1'', i_stock = 10, i_reserved = 0, i_updated_at = 0 \<rparr>],
       cart_items = [\<lparr> ci_user_id = ''u1'', ci_product_id = ''p1'', ci_qty = 3,
                        ci_updated_at = 1 \<rparr>],
       addresses = [\<lparr> a_id = ''a1'', a_user_id = ''u1'', a_country = ''US'',
                       a_is_default_shipping = 1, a_created_at = 0 \<rparr>],
       shipping_methods = [example_std, example_exp],
       orders = [], order_items = [] \<rparr>"

text \<open>
  Two stores with prices the catalog accepts (safe integers) whose amounts leave the range
  of exactly represented integers: three units at \<open>2^53 - 1\<close>, and two units at
  \<open>2^52\<close> shipped for 1 cent.
\<close>

definition example_big_store :: db where
  "example_big_store =
     example_store\<lparr> products := [\<lparr> p_id = ''p1'', p_seller_id = Some ''s1'', p_title = ''Mug'',
                                     p_price_cents = 9007199254740991,
                                     p_status = ''active'' \<rparr>] \<rparr>"

definition example_cent_store :: db where
  "example_cent_store =
     example_store\<lparr> products := [\<lparr> p_id = ''p1'', p_seller_id = Some ''s1'', p_title = ''Mug'',
                                     p_price_cents = 4503599627370496,
                                     p_status = ''active'' \<rparr>],
                     cart_items := [\<lparr> ci_user_id = ''u1'', ci_product_id = ''p1'', ci_qty = 2,
                                       ci_updated_at = 1 \<rparr>],
                     shipping_methods := [example_eco\<lparr> m_base_cents := 1 \<rparr>] \<rparr>"

definition example_uuid :: "nat \<Rightarrow> string" where
  "example_uuid n = (if n = 0 then ''o1'' else replicate n CHR ''i'')"

definition example_body :: "string \<Rightarrow> string option \<Rightarrow> place_body" where
  "example_body mid billing =
     \<lparr> pb_shipping_method_id = Some mid, pb_shipping_address_id = Some ''a1'',
       pb_billing_address_id = billing \<rparr>"

definition example_cart_body :: "int \<Rightarrow> operation \<Rightarrow> cart_body" where
  "example_cart_body qty operation =
     \<lparr> cb_product_id = ''p1'', cb_qty = qty, cb_operation = Some operation \<rparr>"

lemma length_update_first: "length (update_first P f xs) = length xs"
  by (induction xs) auto

lemma update_first_nth:
  "i < length xs \<Longrightarrow>
     update_first P f xs ! i = xs ! i \<or>
     (find P xs = Some (xs ! i) \<and> update_first P f xs ! i = f (xs ! i))"
proof (induction xs arbitrary: i)
  case Nil
  then show ?case by simp
next
  case (Cons x xs)
  show ?case
  proof (cases i)
    case 0
    then show ?thesis by simp
  next
    case (Suc k)
    with Cons show ?thesis by auto
  qed
qed

lemma length_tie_break: "length (tie_break qs) = length qs"
  by (auto simp: tie_break_def length_update_first split: option.splits)

lemma tie_break_nth:
  assumes "i < length qs"
  shows "tie_break qs ! i = qs ! i \<or>
         (find is_express qs = Some (qs ! i) \<and> so_cost_cents (qs ! i) > 0 \<and>
          (\<exists>s. find is_standard qs = Some s \<and> so_cost_cents s = so_cost_cents (qs ! i)) \<and>
          tie_break qs ! i = (qs ! i)\<lparr> so_cost_cents := surcharge (so_cost_cents (qs ! i)) \<rparr>)"
proof (cases "tie_break qs = qs")
  case True
  then show ?thesis by simp
next
  case False
  then obtain s e where se: "find is_standard qs = Some s" "find is_express qs = Some e"
      "so_cost_cents s = so_cost_cents e" "so_cost_cents e > 0"
      and tb: "tie_break qs =
        update_first is_express (\<lambda>e. e\<lparr> so_cost_cents := surcharge (so_cost_cents e) \<rparr>) qs"
    by (auto simp: tie_break_def split: option.splits if_splits)
  from update_first_nth [OF assms, of is_express
      "\<lambda>e. e\<lparr> so_cost_cents := surcharge (so_cost_cents e) \<rparr>"] se tb
  show ?thesis by auto
qed

lemma quote_method_free:
  "m_free_over_cents m = Some f \<Longrightarrow> f \<le> subtotal_cents \<Longrightarrow>
   so_cost_cents (quote_method subtotal_cents m) = 0"
  by (simp add: quote_method_def Let_def)


lemma place_shipping_free:
  "m_free_over_cents m = Some f \<Longrightarrow> f \<le> subtotal_cents \<Longrightarrow>
   place_shipping_cents d zone m subtotal_cents = 0"
  by (simp add: place_shipping_cents_def Let_def)







lemma js_num_safe: "\<bar>n\<bar> \<le> 2 ^ 53 \<Longrightarrow> js_num n = n"
  by (simp add: js_num_def)

lemma check_stock_fold:
  "check_stock items acc = Inr s \<Longrightarrow>
   s = foldl (\<lambda>sum item. js_add sum (js_mul (js_num (r_price_cents item)) (js_num (r_qty item))))
         acc items"
  by (induction items arbitrary: acc) (simp_all add: Let_def split: if_splits)

lemma safe_fold_sum:
  assumes "\<forall>r \<in> set items. \<bar>r_price_cents r\<bar> \<le> 2 ^ 53 \<and> \<bar>r_qty r\<bar> \<le> 2 ^ 53"
      and "\<bar>acc\<bar> + (\<Sum>r\<leftarrow>items. \<bar>r_price_cents r * r_qty r\<bar>) \<le> 2 ^ 53"
  shows "foldl (\<lambda>sum item. js_add sum (js_mul (js_num (r_price_cents item)) (js_num (r_qty item))))
           acc items
         = acc + (\<Sum>r\<leftarrow>items. r_price_cents r * r_qty r)"
  using assms
proof (induction items arbitrary: acc)
  case Nil
  then show ?case by simp
next
  case (Cons item items)
  let ?p = "r_price_cents item" and ?q = "r_qty item"
  have rest: "0 \<le> (\<Sum>r\<leftarrow>items. \<bar>r_price_cents r * r_qty r\<bar>)"
    by (rule sum_list_nonneg) auto
  from Cons.prems have p: "js_num ?p = ?p" and q: "js_num ?q = ?q"
    by (simp_all add: js_num_safe)
  from Cons.prems(2) rest have pq: "\<bar>?p * ?q\<bar> \<le> 2 ^ 53"
    by simp
  from Cons.prems(2) rest have apq: "\<bar>acc + ?p * ?q\<bar> \<le> 2 ^ 53"
    by simp
  have step: "js_add acc (js_mul (js_num ?p) (js_num ?q)) = acc + ?p * ?q"
    using pq apq by (simp add: js_add_def js_mul_def p q js_num_safe)
  from Cons.prems(2)
  have "\<bar>acc + ?p * ?q\<bar> + (\<Sum>r\<leftarrow>items. \<bar>r_price_cents r * r_qty r\<bar>) \<le> 2 ^ 53"
    by simp
  with Cons.prems(1) Cons.IH [of "acc + ?p * ?q"] step show ?case
    by simp
qed

lemma orders_commit_items:
  "orders (snd (commit_items fail uuid now orderId j items d)) = orders d"
  by (induction items arbitrary: j d)
     (auto simp: Let_def insert_order_item_def decrement_stock_def)

lemma orders_commit:
  "orders (snd (commit fail uuid now uid ord items d))
     = (if fail = Some 0 then orders d else orders d @ [ord])"
proof (cases "fail = Some 0")
  case True
  then show ?thesis by (simp add: commit_def)
next
  case False
  obtain ok d' where ci: "commit_items fail uuid now (o_id ord) 0 items (insert_order ord d) = (ok, d')"
    by (cases "commit_items fail uuid now (o_id ord) 0 items (insert_order ord d)")
  have "orders d' = orders (insert_order ord d)"
    using orders_commit_items [of fail uuid now "o_id ord" 0 items "insert_order ord d"] ci by simp
  then show ?thesis
    using False ci by (cases ok) (simp_all add: commit_def insert_order_def clear_cart_def)
qed

lemma placeOrder_cases:
  "(\<exists>e. placeOrder fail uuid now auth body d = (Inl e, d)) \<or>
   (\<exists>uid mid aid billing subtotal addr sm.
       auth = Some uid \<and> checkoutPlaceSchema body = Some (mid, aid, billing) \<and>
       select_cart d uid \<noteq> [] \<and> check_stock (select_cart d uid) 0 = Inr subtotal \<and>
       find (\<lambda>a. a_id a = aid \<and> a_user_id a = uid) (addresses d) = Some addr \<and>
       find (\<lambda>m. m_id m = mid \<and> m_active m = 1) (shipping_methods d) = Some sm \<and>
       m_zone sm = zone_of addr \<and>
       placeOrder fail uuid now auth body d =
         (let ord = make_order uuid now uid billing addr sm subtotal
                       (place_shipping_cents d (zone_of addr) sm subtotal)
          in case commit fail uuid now uid ord (select_cart d uid) d of
               (False, d') \<Rightarrow> (Inl InternalError, d')
             | (True, d') \<Rightarrow> (Inr (make_reply ord sm), d')))"
  unfolding placeOrder_def make_order_def make_reply_def Let_def
  by (auto split: option.splits sum.splits prod.splits bool.splits)


lemma length_item_writes: "length (item_writes uuid now orderId j items) = 2 * length items"
  by (induction items arbitrary: j) (simp_all add: item_writes_def)

lemma item_writes_Cons:
  "item_writes uuid now orderId j (item # items) =
     insert_order_item
       \<lparr> oi_id = uuid (j + 1), oi_order_id = orderId,
         oi_product_id = r_product_id item, oi_title_snapshot = r_title item,
         oi_price_cents = r_price_cents item, oi_qty = r_qty item \<rparr>
     # decrement_stock (r_product_id item) (r_qty item) now
     # item_writes uuid now orderId (Suc j) items"
  by (simp add: item_writes_def)

lemma commit_items_sequential:
  "commit_items fail uuid now orderId j items d =
     (case fail of
        None \<Rightarrow> (True, apply_writes (item_writes uuid now orderId j items) d)
      | Some k \<Rightarrow>
          if 2 * j + 1 \<le> k \<and> k < 2 * j + 1 + 2 * length items
          then (False, apply_writes (take (k - (2 * j + 1)) (item_writes uuid now orderId j items)) d)
          else (True, apply_writes (item_writes uuid now orderId j items) d))"
proof (induction items arbitrary: j d)
  case Nil
  show ?case by (cases fail) (simp_all add: item_writes_def apply_writes_def)
next
  case (Cons item items)
  show ?case
  proof (cases fail)
    case None
    then show ?thesis
      using Cons.IH [of "j + 1"] by (simp add: item_writes_Cons apply_writes_def Let_def)
  next
    case (Some k)
    consider "k = 2 * j + 1" | "k = 2 * j + 2" | "k < 2 * j + 1" | "k > 2 * j + 2" by linarith
    then show ?thesis
    proof cases
      case 1
      then show ?thesis using Some by (simp add: apply_writes_def)
    next
      case 2
      then show ?thesis using Some by (simp add: apply_writes_def item_writes_Cons Let_def)
    next
      case 3
      then show ?thesis
        using Some Cons.IH [of "j + 1"]
        by (simp add: item_writes_Cons apply_writes_def Let_def)
    next
      case 4
      define m where "m = k - (2 * j + 3)"
      with 4 have m: "k = 2 * j + 3 + m" by simp
      show ?thesis
        using Some m Cons.IH [of "j + 1"]
        by (simp add: item_writes_Cons apply_writes_def Let_def)
    qed
  qed
qed

lemma commit_writes_items:
  "commit_writes uuid now uid ord items =
     insert_order ord # item_writes uuid now (o_id ord) 0 items @ [clear_cart uid]"
  by (simp add: commit_writes_def)

lemma commit_sequential:
  "length (commit_writes uuid now uid ord items) = 2 * length items + 2 \<and>
   commit fail uuid now uid ord items d =
     (case fail of
        None \<Rightarrow> (True, apply_writes (commit_writes uuid now uid ord items) d)
      | Some k \<Rightarrow>
          if k < length (commit_writes uuid now uid ord items)
          then (False, apply_writes (take k (commit_writes uuid now uid ord items)) d)
          else (True, apply_writes (commit_writes uuid now uid ord items) d))"
proof
  show len: "length (commit_writes uuid now uid ord items) = 2 * length items + 2"
    by (simp add: commit_writes_items length_item_writes)
  let ?iw = "item_writes uuid now (o_id ord) 0 items"
  have liw: "length ?iw = 2 * length items" by (rule length_item_writes)
  show "commit fail uuid now uid ord items d =
     (case fail of
        None \<Rightarrow> (True, apply_writes (commit_writes uuid now uid ord items) d)
      | Some k \<Rightarrow>
          if k < length (commit_writes uuid now uid ord items)
          then (False, apply_writes (take k (commit_writes uuid now uid ord items)) d)
          else (True, apply_writes (commit_writes uuid now uid ord items) d))"
  proof (cases fail)
    case None
    then show ?thesis
      by (simp add: commit_def commit_items_sequential commit_writes_items apply_writes_def)
  next
    case (Some k)
    consider "k = 0" | "1 \<le> k \<and> k < 1 + 2 * length items" | "k = 2 * length items + 1"
      | "k > 2 * length items + 1" by linarith
    then show ?thesis
    proof cases
      case 1
      then show ?thesis using Some by (simp add: commit_def commit_writes_items apply_writes_def)
    next
      case 2
      then obtain m where m: "k = Suc m" "m < 2 * length items"
        by (cases k) auto
      show ?thesis
        using Some m liw
        by (simp add: commit_def commit_items_sequential commit_writes_items apply_writes_def)
    next
      case 3
      then show ?thesis
        using Some liw
        by (simp add: commit_def commit_items_sequential commit_writes_items apply_writes_def)
    next
      case 4
      then show ?thesis
        using Some liw
        by (simp add: commit_def commit_items_sequential commit_writes_items apply_writes_def)
    qed
  qed
qed


lemma fst_commit:
  "fst (commit fail uuid now uid ord items d)
     = (case fail of None \<Rightarrow> True | Some k \<Rightarrow> \<not> k < 2 * length items + 2)"
  using commit_sequential [of uuid now uid ord items fail d]
  by (simp split: option.splits)

lemma placeOrder_billing_reply:
  assumes "b \<noteq> []"
  shows "fst (placeOrder fail uuid now auth (body\<lparr> pb_billing_address_id := Some b \<rparr>) d)
         = map_sum id (\<lambda>r. r\<lparr> or_billing_address_id := b \<rparr>)
             (fst (placeOrder fail uuid now auth (body\<lparr> pb_billing_address_id := None \<rparr>) d))"
  using assms
  unfolding placeOrder_def checkoutPlaceSchema_def Let_def
  by (simp add: case_prod_beta fst_commit
           split: option.split sum.split bool.split)

lemma cart_ok_delete: "cart_ok d \<Longrightarrow> cart_ok (delete_cart_item uid pid d)"
  by (simp add: cart_ok_def delete_cart_item_def list_all_iff)

lemma cart_ok_upsert: "cart_ok d \<Longrightarrow> 1 \<le> q \<Longrightarrow> cart_ok (upsert_cart_item uid pid q now d)"
  by (auto simp: cart_ok_def upsert_cart_item_def list_all_iff split: option.splits)

lemma line_qty_delete: "line_qty (delete_cart_item uid pid d) uid pid = None"
  by (simp add: line_qty_def find_cart_item_def delete_cart_item_def find_None_iff)

lemma find_map_update:
  "find P (map (\<lambda>x. if P x then f x else x) xs) = map_option f (find P xs)"
  if "\<And>x. P x \<Longrightarrow> P (f x)"
  using that by (induction xs) auto

lemma find_append_None: "find P xs = None \<Longrightarrow> find P (xs @ ys) = find P ys"
  by (induction xs) (auto split: if_splits)

lemma line_qty_upsert: "line_qty (upsert_cart_item uid pid q now d) uid pid = Some q"
proof (cases "find_cart_item d uid pid")
  case None
  then show ?thesis
    by (simp add: line_qty_def upsert_cart_item_def find_cart_item_def find_append_None)
next
  case (Some c)
  let ?P = "\<lambda>ci. ci_user_id ci = uid \<and> ci_product_id ci = pid"
  have "find ?P (map (\<lambda>x. if ?P x then x\<lparr> ci_qty := q, ci_updated_at := now \<rparr> else x) (cart_items d))
        = map_option (\<lambda>x. x\<lparr> ci_qty := q, ci_updated_at := now \<rparr>) (find ?P (cart_items d))"
    by (rule find_map_update) simp
  with Some show ?thesis
    by (simp add: line_qty_def upsert_cart_item_def find_cart_item_def)
qed

lemma apply_new_qty_reply:
  assumes "apply_new_qty uid pid operation newQty now d = (Inr rep, d')"
  shows "0 \<le> reply_qty rep
       \<and> reply_qty rep = max 0 newQty
       \<and> line_qty d' uid pid = (if reply_qty rep = 0 then None else Some (reply_qty rep))
       \<and> (cart_ok d \<longrightarrow> cart_ok d')"
proof (cases "newQty \<le> 0")
  case True
  with assms have rep: "reply_qty rep = 0"
    and d': "d' = (if find_cart_item d uid pid \<noteq> None then delete_cart_item uid pid d else d)"
    by (auto simp: apply_new_qty_def Let_def split: if_splits)
  have "line_qty d' uid pid = None"
    using d' line_qty_delete [of uid pid d] by (auto simp: line_qty_def)
  moreover have "cart_ok d \<longrightarrow> cart_ok d'"
    using d' by (simp add: cart_ok_delete)
  ultimately show ?thesis using rep True by simp
next
  case False
  with assms have rep: "reply_qty rep = newQty"
    and d': "d' = upsert_cart_item uid pid newQty now d"
    by (auto simp: apply_new_qty_def Let_def split: if_splits)
  show ?thesis
    using rep d' False by (simp add: line_qty_upsert cart_ok_upsert)
qed

lemma apply_new_qty_error:
  "apply_new_qty uid pid operation newQty now d = (Inl e, d') \<Longrightarrow> d' = d"
  by (auto simp: apply_new_qty_def Let_def split: if_splits)

lemma updateCart_error: "updateCart auth body now d = (Inl e, d') \<Longrightarrow> d' = d"
  unfolding updateCart_def Let_def
  by (auto split: option.splits prod.splits if_splits operation.splits
           dest: apply_new_qty_error)

lemma updateCart_reaches_apply:
  assumes "updateCart (Some uid) body now d = (Inr rep, d')"
  shows "\<exists>operation.
           apply_new_qty uid (cb_product_id body) operation (new_qty d uid body) now d
             = (Inr rep, d')"
  using assms
  unfolding updateCart_def Let_def cartUpdateSchema_def new_qty_def
  by (auto split: option.splits prod.splits if_splits operation.splits)

lemma updateCart_reply:
  assumes "updateCart (Some uid) body now d = (Inr rep, d')"
  shows "0 \<le> reply_qty rep
       \<and> reply_qty rep = max 0 (new_qty d uid body)
       \<and> line_qty d' uid (cb_product_id body)
            = (if reply_qty rep = 0 then None else Some (reply_qty rep))
       \<and> (cart_ok d \<longrightarrow> cart_ok d')"
proof -
  from updateCart_reaches_apply [OF assms] obtain operation where
    "apply_new_qty uid (cb_product_id body) operation (new_qty d uid body) now d = (Inr rep, d')"
    by blast
  from apply_new_qty_reply [OF this] show ?thesis .
qed

lemma updateCart_step:
  assumes "updateCart (Some uid) body now d = (reply, d')"
  shows "(cart_ok d \<longrightarrow> cart_ok d') \<and>
         (case reply of
            Inl e \<Rightarrow> d' = d
          | Inr rep \<Rightarrow>
              0 \<le> reply_qty rep \<and>
              reply_qty rep = max 0 (new_qty d uid body) \<and>
              line_qty d' uid (cb_product_id body)
                = (if reply_qty rep = 0 then None else Some (reply_qty rep)))"
proof (cases reply)
  case (Inl e)
  with assms have "d' = d" by (auto dest: updateCart_error)
  with Inl show ?thesis by simp
next
  case (Inr rep)
  with assms updateCart_reply [of uid body now d rep d'] show ?thesis by simp
qed

lemma cart_session_steps:
  "list_all
     (\<lambda>((uid, body, now), before, reply, after).
        (cart_ok before \<longrightarrow> cart_ok after) \<and>
        (case reply of
           Inl e \<Rightarrow> after = before
         | Inr rep \<Rightarrow>
             0 \<le> reply_qty rep \<and>
             reply_qty rep = max 0 (new_qty before uid body) \<and>
             line_qty after uid (cb_product_id body)
               = (if reply_qty rep = 0 then None else Some (reply_qty rep))))
     (cart_session d reqs)"
proof (induction reqs arbitrary: d)
  case Nil
  then show ?case by simp
next
  case (Cons req reqs)
  obtain uid body now where req: "req = (uid, body, now)" by (cases req)
  obtain reply d' where u: "updateCart (Some uid) body now d = (reply, d')"
    by (cases "updateCart (Some uid) body now d")
  from updateCart_step [OF u] Cons.IH [of d'] show ?case
    by (simp add: req u)
qed

lemma cart_session_ok:
  "cart_ok d \<Longrightarrow>
   list_all (\<lambda>(req, before, reply, after). cart_ok before \<and> cart_ok after)
     (cart_session d reqs)"
proof (induction reqs arbitrary: d)
  case Nil
  then show ?case by simp
next
  case (Cons req reqs)
  obtain uid body now where req: "req = (uid, body, now)" by (cases req)
  obtain reply d' where u: "updateCart (Some uid) body now d = (reply, d')"
    by (cases "updateCart (Some uid) body now d")
  from updateCart_step [OF u] Cons.prems have ok': "cart_ok d'" by simp
  from Cons.IH [OF ok'] ok' Cons.prems show ?case
    by (simp add: req u)
qed


section \<open>How the handlers use the shipping computations\<close>

lemma summary_shipping_options:
  assumes "summary auth d = Inr s"
  shows "\<exists>a \<in> set (addresses d).
           cs_shipping_options s
             = summary_quotes (active_methods d (zone_of a)) (cs_subtotal_cents s)"
proof -
  from assms obtain uid where auth: "auth = Some uid"
    by (cases auth) (auto simp: summary_def)
  let ?addrs = "select_addresses d uid"
  have sub: "set ?addrs \<subseteq> set (addresses d)"
    by (auto simp: select_addresses_def)
  from assms auth obtain first rest where addrs: "?addrs = first # rest"
    by (cases ?addrs) (auto simp: summary_def Let_def split: if_splits)
  define chosen where
    "chosen = (case find (\<lambda>a. a_is_default_shipping a \<noteq> 0) ?addrs of
                 Some a \<Rightarrow> a | None \<Rightarrow> first)"
  have "chosen \<in> set ?addrs"
    unfolding chosen_def using addrs
    by (auto split: option.splits simp: find_Some_iff)
  with sub have "chosen \<in> set (addresses d)" by blast
  moreover from assms auth addrs
  have "cs_shipping_options s
          = summary_quotes (active_methods d (zone_of chosen)) (cs_subtotal_cents s)"
    unfolding chosen_def
    by (auto simp: summary_def Let_def split: if_splits)
  ultimately show ?thesis by blast
qed

lemma placeOrder_shipping_cents:
  assumes "placeOrder fail uuid now auth body d = (Inr rep, d')"
  shows "\<exists>a \<in> set (addresses d). \<exists>m \<in> set (shipping_methods d).
           pb_shipping_method_id body = Some (m_id m) \<and>
           or_shipping_cents rep
             = place_shipping_cents d (zone_of a) m (or_subtotal_cents rep)"
proof -
  from placeOrder_cases [of fail uuid now auth body d] assms
  obtain uid mid aid billing subtotal addr sm where
    sch: "checkoutPlaceSchema body = Some (mid, aid, billing)" and
    fa: "find (\<lambda>a. a_id a = aid \<and> a_user_id a = uid) (addresses d) = Some addr" and
    fm: "find (\<lambda>m. m_id m = mid \<and> m_active m = 1) (shipping_methods d) = Some sm" and
    eq: "placeOrder fail uuid now auth body d =
         (let ord = make_order uuid now uid billing addr sm subtotal
                       (place_shipping_cents d (zone_of addr) sm subtotal)
          in case commit fail uuid now uid ord (select_cart d uid) d of
               (False, d') \<Rightarrow> (Inl InternalError, d')
             | (True, d') \<Rightarrow> (Inr (make_reply ord sm), d'))"
    by auto
  from fa have a: "addr \<in> set (addresses d)"
    by (auto simp: find_Some_iff)
  from fm have m: "sm \<in> set (shipping_methods d)" and mid: "m_id sm = mid"
    by (auto simp: find_Some_iff)
  from sch have "pb_shipping_method_id body = Some mid"
    by (auto simp: checkoutPlaceSchema_def split: option.splits if_splits)
  moreover from assms eq
  have "rep = make_reply (make_order uuid now uid billing addr sm subtotal
                            (place_shipping_cents d (zone_of addr) sm subtotal)) sm"
    by (auto simp: Let_def split: prod.splits bool.splits)
  ultimately show ?thesis
    using a m mid by (auto simp: make_reply_def make_order_def)
qed

lemma shipping_agrees_unless_express:
  assumes "toLowerCase (m_speed m) \<noteq> ''express''"
  shows "place_shipping_cents d zone m subtotal_cents
           = so_cost_cents (quote_method subtotal_cents m)"
  using assms by (simp add: place_shipping_cents_def quote_method_def Let_def)

section \<open>The claims\<close>

subsection \<open>C1: the quote shown and the shipping charged\<close>

text \<open>
  Claim C1 says that the shipping cost the summary shows for a method equals the
  \<open>shipping_cents\<close> place-order charges for it when both run on the same store. The two
  handlers compute it separately. The summary caps both costs and then compares them, and
  leaves the recomputed express cost uncapped; place-order compares the capped cost of the
  standard peer with the uncapped cost of the chosen express method, and caps after the
  surcharge. On the example store (subtotal 1500, standard and express both of base cost
  5000) the summary quotes express at 440 and place-order charges 150 for it.
\<close>

theorem summary_and_place_order_disagree:
  "map_sum id (\<lambda>s. map so_cost_cents (cs_shipping_options s))
     (summary (Some ''u1'') example_store) = Inr [150, 440]
   \<and> map_sum id or_shipping_cents
       (fst (placeOrder None example_uuid 7 (Some ''u1'') (example_body ''exp'' None)
               example_store)) = Inr 150
   \<and> map o_shipping_cents
       (orders (snd (placeOrder None example_uuid 7 (Some ''u1'') (example_body ''exp'' None)
                       example_store))) = [150]"
  by code_simp

subsection \<open>C2: the commit is a sequence of independent writes\<close>

text \<open>
  Claim C2 says that the order insert, the order-item inserts, the stock decrements and
  the cart clear are one all-or-nothing unit. The handler has no transaction: it awaits the
  writes one after the other. As amended: the commit applies the writes in order; when
  none fails all of them are applied and the request succeeds; when write number \<open>k\<close>
  fails, the \<open>k\<close> writes before it stay applied, the later ones are not attempted, and
  the request ends with the internal error (status 500).
\<close>

theorem commit_is_sequential:
  "length (commit_writes uuid now uid ord items) = 2 * length items + 2 \<and>
   commit fail uuid now uid ord items d =
     (case fail of
        None \<Rightarrow> (True, apply_writes (commit_writes uuid now uid ord items) d)
      | Some k \<Rightarrow>
          if k < length (commit_writes uuid now uid ord items)
          then (False, apply_writes (take k (commit_writes uuid now uid ord items)) d)
          else (True, apply_writes (commit_writes uuid now uid ord items) d))"
  by (rule commit_sequential)

theorem commit_is_sequential_witness:
  "commit (Some 1) example_uuid 7 ''u1'' \<lparr> o_id = ''o1'', o_user_id = ''u1'', o_status = ''placed'',
       o_subtotal_cents = 1500, o_shipping_cents = 150, o_tax_cents = 0, o_total_cents = 1650,
       o_currency = ''USD'', o_shipping_address_id = ''a1'', o_billing_address_id = ''a1'',
       o_shipping_method_id = ''exp'', o_created_at = 7, o_updated_at = 7 \<rparr>
     (select_cart example_store ''u1'') example_store
   = (False, insert_order \<lparr> o_id = ''o1'', o_user_id = ''u1'', o_status = ''placed'',
       o_subtotal_cents = 1500, o_shipping_cents = 150, o_tax_cents = 0, o_total_cents = 1650,
       o_currency = ''USD'', o_shipping_address_id = ''a1'', o_billing_address_id = ''a1'',
       o_shipping_method_id = ''exp'', o_created_at = 7, o_updated_at = 7 \<rparr> example_store)"
  using commit_is_sequential [of example_uuid 7 "''u1''" _ "select_cart example_store ''u1''"
      "Some 1" example_store]
  by (simp add: commit_writes_def apply_writes_def)

text \<open>
  The claim as stated fails: when the first order-item insert throws, the order row
  stays in the store without items, the stock is not decremented and the cart is not
  cleared.
\<close>

theorem partial_commit_counterexample:
  "fst (placeOrder (Some 1) example_uuid 7 (Some ''u1'') (example_body ''exp'' None)
          example_store) = Inl InternalError
   \<and> map o_id (orders (snd (placeOrder (Some 1) example_uuid 7 (Some ''u1'')
                               (example_body ''exp'' None) example_store))) = [''o1'']
   \<and> order_items (snd (placeOrder (Some 1) example_uuid 7 (Some ''u1'')
                          (example_body ''exp'' None) example_store)) = []
   \<and> inventory (snd (placeOrder (Some 1) example_uuid 7 (Some ''u1'')
                        (example_body ''exp'' None) example_store)) = inventory example_store
   \<and> cart_items (snd (placeOrder (Some 1) example_uuid 7 (Some ''u1'')
                         (example_body ''exp'' None) example_store)) = cart_items example_store"
  by code_simp

subsection \<open>C3: the 10% cap\<close>




subsection \<open>C4: the tie-break between standard and express\<close>




subsection \<open>C5: the free-shipping threshold\<close>

text \<open>
  Claim C5: for a method whose \<open>free_over_cents\<close> is set and reached by the subtotal,
  the cost is exactly 0, both in the shipping options of the summary (at every position
  where the method is listed) and in the \<open>shipping_cents\<close> of place-order; neither the
  cap nor the express surcharge changes a zero cost.
\<close>

theorem free_threshold_gives_zero:
  assumes "m_free_over_cents m = Some f" and "f \<le> subtotal_cents"
  shows "(\<forall>i < length shippingRows. shippingRows ! i = m \<longrightarrow>
            so_cost_cents (summary_quotes shippingRows subtotal_cents ! i) = 0)
         \<and> place_shipping_cents d zone m subtotal_cents = 0"
proof (intro conjI allI impI)
  fix i
  assume i: "i < length shippingRows" and m: "shippingRows ! i = m"
  let ?qs = "map (quote_method subtotal_cents) shippingRows"
  have zero: "so_cost_cents (?qs ! i) = 0"
    using i m assms by (simp add: quote_method_free)
  from i have "i < length ?qs" by simp
  from tie_break_nth [OF this] zero
  show "so_cost_cents (summary_quotes shippingRows subtotal_cents ! i) = 0"
    by (auto simp: summary_quotes_def)
next
  show "place_shipping_cents d zone m subtotal_cents = 0"
    using assms by (rule place_shipping_free)
qed

theorem free_threshold_gives_zero_witness:
  "so_cost_cents (summary_quotes [example_std, example_free] 1500 ! 1) = 0
   \<and> place_shipping_cents example_store ''US'' example_free 1500 = 0"
proof -
  have h1: "m_free_over_cents example_free = Some 1000" by (simp add: example_free_def)
  have h2: "(1000::int) \<le> 1500" by simp
  from free_threshold_gives_zero [OF h1 h2, of "[example_std, example_free]" example_store "''US''"]
  have all: "\<forall>i<2. [example_std, example_free] ! i = example_free \<longrightarrow>
               so_cost_cents (summary_quotes [example_std, example_free] 1500 ! i) = 0"
    and place: "place_shipping_cents example_store ''US'' example_free 1500 = 0"
    by simp_all
  from all have "[example_std, example_free] ! 1 = example_free \<longrightarrow>
               so_cost_cents (summary_quotes [example_std, example_free] 1500 ! 1) = 0"
    by (rule allE [where x = 1]) simp
  with place show ?thesis by simp
qed

subsection \<open>C6: cart quantities\<close>

text \<open>
  Claim C6: along any sequence of cart requests, every reported quantity is at least 0; it
  is the requested new quantity, or 0 when that is not positive; after a request reporting
  0 the line is absent, and after a request reporting a positive quantity the line holds
  that quantity; a rejected request leaves the store unchanged. Every stored line has a
  quantity of at least 1 after each request if that held before it, hence throughout a
  sequence that starts from a store where it holds.
\<close>

theorem cart_quantities_invariant:
  "list_all
     (\<lambda>((uid, body, now), before, reply, after).
        (cart_ok before \<longrightarrow> cart_ok after) \<and>
        (case reply of
           Inl e \<Rightarrow> after = before
         | Inr rep \<Rightarrow>
             0 \<le> reply_qty rep \<and>
             reply_qty rep = max 0 (new_qty before uid body) \<and>
             line_qty after uid (cb_product_id body)
               = (if reply_qty rep = 0 then None else Some (reply_qty rep))))
     (cart_session d reqs)
   \<and> (cart_ok d \<longrightarrow>
        list_all (\<lambda>(req, before, reply, after). cart_ok before \<and> cart_ok after)
          (cart_session d reqs))"
  using cart_session_steps [of d reqs] cart_session_ok [of d reqs] by blast

theorem cart_quantities_invariant_witness:
  "cart_ok example_store
   \<and> map (\<lambda>(req, before, reply, after).
            (map_sum id reply_qty reply, line_qty after ''u1'' ''p1'', cart_ok after))
       (cart_session example_store
          [(''u1'', example_cart_body 2 OpAdd, 5), (''u1'', example_cart_body 5 OpRemove, 6)])
     = [(Inr 5, Some 5, True), (Inr 0, None, True)]"
proof -
  have ok: "cart_ok example_store" by code_simp
  have run: "map (\<lambda>(req, before, reply, after).
            (map_sum id reply_qty reply, line_qty after ''u1'' ''p1''))
       (cart_session example_store
          [(''u1'', example_cart_body 2 OpAdd, 5), (''u1'', example_cart_body 5 OpRemove, 6)])
     = [(Inr 5, Some 5), (Inr 0, None)]"
    by code_simp
  from cart_quantities_invariant [of example_store
      "[(''u1'', example_cart_body 2 OpAdd, 5), (''u1'', example_cart_body 5 OpRemove, 6)]"] ok
  have "list_all (\<lambda>(req, before, reply, after). cart_ok before \<and> cart_ok after)
          (cart_session example_store
             [(''u1'', example_cart_body 2 OpAdd, 5), (''u1'', example_cart_body 5 OpRemove, 6)])"
    by blast
  then have "map (\<lambda>(req, before, reply, after). cart_ok after)
       (cart_session example_store
          [(''u1'', example_cart_body 2 OpAdd, 5), (''u1'', example_cart_body 5 OpRemove, 6)])
     = [True, True]"
    by (simp add: Let_def split: prod.splits)
  with ok run show ?thesis
    by (simp add: Let_def split: prod.splits)
qed

subsection \<open>C7: increases beyond the available stock\<close>

text \<open>
  Claim C7: a valid request for an active product of another seller whose new quantity
  is above the current quantity of the line and above the available stock
  (\<open>stock - reserved\<close>) is rejected and leaves the store unchanged. With no availability
  the error is the out-of-stock error; with positive availability it is the
  exceeds-available error carrying the available count.
\<close>

theorem increase_beyond_available_rejected:
  assumes valid: "cartUpdateSchema body \<noteq> None"
      and prod: "find (\<lambda>p. p_id p = cb_product_id body) (products d) = Some product"
      and active: "p_status product = ''active''"
      and other: "p_seller_id product \<noteq> Some uid"
      and incr: "current_qty d uid (cb_product_id body) < new_qty d uid body"
      and over: "available_of d (cb_product_id body) < new_qty d uid body"
  shows "updateCart (Some uid) body now d =
           (Inl (if available_of d (cb_product_id body) \<le> 0 then OutOfStock
                 else ExceedsAvailable (available_of d (cb_product_id body))), d)"
proof -
  from valid have q: "1 \<le> cb_qty body" and pid: "cb_product_id body \<noteq> []"
    and q999: "cb_qty body \<le> 999"
    by (auto simp: cartUpdateSchema_def split: if_splits)
  from incr q have notrm: "cb_operation body \<noteq> Some OpRemove"
    by (auto simp: new_qty_def Let_def)
  show ?thesis
  proof (cases "cb_operation body")
    case None
    with valid prod active other incr over q pid q999 show ?thesis
      by (simp add: updateCart_def cartUpdateSchema_def new_qty_def apply_new_qty_def Let_def)
  next
    case (Some operation)
    with notrm have "operation = OpSet \<or> operation = OpAdd" by (cases operation) auto
    with Some valid prod active other incr over q pid q999 show ?thesis
      by (auto simp: updateCart_def cartUpdateSchema_def new_qty_def apply_new_qty_def Let_def)
  qed
qed

theorem increase_beyond_available_rejected_witness:
  "updateCart (Some ''u1'') (example_cart_body 8 OpAdd) 9 example_store
     = (Inl (ExceedsAvailable 10), example_store)
   \<and> updateCart (Some ''u1'') (example_cart_body 4 OpSet) 9 (example_store\<lparr> inventory := [] \<rparr>)
     = (Inl OutOfStock, example_store\<lparr> inventory := [] \<rparr>)"
proof -
  let ?p = "\<lparr> p_id = ''p1'', p_seller_id = Some ''s1'', p_title = ''Mug'',
              p_price_cents = 500, p_status = ''active'' \<rparr>"
  have v8: "cartUpdateSchema (example_cart_body 8 OpAdd) \<noteq> None" by code_simp
  have f8: "find (\<lambda>p. p_id p = cb_product_id (example_cart_body 8 OpAdd)) (products example_store)
              = Some ?p" by code_simp
  have a: "p_status ?p = ''active''" by simp
  have o: "p_seller_id ?p \<noteq> Some ''u1''" by simp
  have i8: "current_qty example_store ''u1'' (cb_product_id (example_cart_body 8 OpAdd))
              < new_qty example_store ''u1'' (example_cart_body 8 OpAdd)" by code_simp
  have o8: "available_of example_store (cb_product_id (example_cart_body 8 OpAdd))
              < new_qty example_store ''u1'' (example_cart_body 8 OpAdd)" by code_simp
  have av8: "available_of example_store (cb_product_id (example_cart_body 8 OpAdd)) = 10"
    by code_simp
  let ?d = "example_store\<lparr> inventory := [] \<rparr>"
  have v4: "cartUpdateSchema (example_cart_body 4 OpSet) \<noteq> None" by code_simp
  have f4: "find (\<lambda>p. p_id p = cb_product_id (example_cart_body 4 OpSet)) (products ?d)
              = Some ?p" by code_simp
  have i4: "current_qty ?d ''u1'' (cb_product_id (example_cart_body 4 OpSet))
              < new_qty ?d ''u1'' (example_cart_body 4 OpSet)" by code_simp
  have o4: "available_of ?d (cb_product_id (example_cart_body 4 OpSet))
              < new_qty ?d ''u1'' (example_cart_body 4 OpSet)" by code_simp
  have av4: "available_of ?d (cb_product_id (example_cart_body 4 OpSet)) = 0"
    by code_simp
  from increase_beyond_available_rejected [OF v8 f8 a o i8 o8, of 9] av8
    increase_beyond_available_rejected [OF v4 f4 a o i4 o4, of 9] av4
  show ?thesis by simp
qed

subsection \<open>C8: the totals of an order row\<close>

text \<open>
  Claim C8 says that every order row written by place-order has
  \<open>total_cents = subtotal_cents + shipping_cents + tax_cents\<close> with \<open>tax_cents = 0\<close> and
  a \<open>subtotal_cents\<close> equal to the sum of \<open>price_cents * qty\<close> over the cart lines.
  The handler computes on JavaScript numbers. As amended: every order row written by
  place-order has \<open>tax_cents = 0\<close>, a \<open>total_cents\<close> that is the double-precision sum of
  its \<open>subtotal_cents\<close> and \<open>shipping_cents\<close>, and a \<open>subtotal_cents\<close> that is the
  double-precision running sum of the products \<open>price_cents * qty\<close> over the cart lines
  read at the start of the request. When every price and quantity and the sum of the
  magnitudes of the products are at most \<open>2^53\<close>, the subtotal is exactly the sum of
  \<open>price_cents * qty\<close>; when the magnitude of subtotal plus shipping is at most
  \<open>2^53\<close>, \<open>total_cents = subtotal_cents + shipping_cents + tax_cents\<close> exactly. This
  holds whatever write of the commit fails.
\<close>

theorem order_row_totals:
  assumes "ord \<in> set (orders (snd (placeOrder fail uuid now (Some uid) body d)))"
      and "ord \<notin> set (orders d)"
  shows "o_tax_cents ord = 0
       \<and> o_total_cents ord = js_add (o_subtotal_cents ord) (o_shipping_cents ord)
       \<and> o_subtotal_cents ord
           = foldl (\<lambda>sum item. js_add sum (js_mul (js_num (r_price_cents item))
                                                  (js_num (r_qty item))))
               0 (select_cart d uid)
       \<and> ((\<forall>r \<in> set (select_cart d uid). \<bar>r_price_cents r\<bar> \<le> 2 ^ 53 \<and> \<bar>r_qty r\<bar> \<le> 2 ^ 53)
            \<and> (\<Sum>r\<leftarrow>select_cart d uid. \<bar>r_price_cents r * r_qty r\<bar>) \<le> 2 ^ 53
          \<longrightarrow> o_subtotal_cents ord = (\<Sum>r\<leftarrow>select_cart d uid. r_price_cents r * r_qty r))
       \<and> (\<bar>o_subtotal_cents ord + o_shipping_cents ord\<bar> \<le> 2 ^ 53
          \<longrightarrow> o_total_cents ord
                = o_subtotal_cents ord + o_shipping_cents ord + o_tax_cents ord)"
proof -
  from placeOrder_cases [of fail uuid now "Some uid" body d]
  show ?thesis
  proof
    assume "\<exists>e. placeOrder fail uuid now (Some uid) body d = (Inl e, d)"
    with assms show ?thesis by auto
  next
    assume "\<exists>uid' mid aid billing subtotal addr sm.
       Some uid = Some uid' \<and> checkoutPlaceSchema body = Some (mid, aid, billing) \<and>
       select_cart d uid' \<noteq> [] \<and> check_stock (select_cart d uid') 0 = Inr subtotal \<and>
       find (\<lambda>a. a_id a = aid \<and> a_user_id a = uid') (addresses d) = Some addr \<and>
       find (\<lambda>m. m_id m = mid \<and> m_active m = 1) (shipping_methods d) = Some sm \<and>
       m_zone sm = zone_of addr \<and>
       placeOrder fail uuid now (Some uid) body d =
         (let ord = make_order uuid now uid' billing addr sm subtotal
                       (place_shipping_cents d (zone_of addr) sm subtotal)
          in case commit fail uuid now uid' ord (select_cart d uid') d of
               (False, d') \<Rightarrow> (Inl InternalError, d')
             | (True, d') \<Rightarrow> (Inr (make_reply ord sm), d'))"
    then obtain mid aid billing subtotal addr sm where
      cs: "check_stock (select_cart d uid) 0 = Inr subtotal" and
      po: "placeOrder fail uuid now (Some uid) body d =
         (let ord = make_order uuid now uid billing addr sm subtotal
                       (place_shipping_cents d (zone_of addr) sm subtotal)
          in case commit fail uuid now uid ord (select_cart d uid) d of
               (False, d') \<Rightarrow> (Inl InternalError, d')
             | (True, d') \<Rightarrow> (Inr (make_reply ord sm), d'))"
      by auto
    let ?ord = "make_order uuid now uid billing addr sm subtotal
                  (place_shipping_cents d (zone_of addr) sm subtotal)"
    let ?f = "\<lambda>sum item. js_add sum (js_mul (js_num (r_price_cents item)) (js_num (r_qty item)))"
    have "snd (placeOrder fail uuid now (Some uid) body d)
            = snd (commit fail uuid now uid ?ord (select_cart d uid) d)"
      by (simp add: po Let_def case_prod_beta split: bool.splits)
    with assms have "ord \<in> set (orders (snd (commit fail uuid now uid ?ord (select_cart d uid) d)))"
      by simp
    with assms(2) have ord: "ord = ?ord"
      by (simp add: orders_commit split: if_splits)
    have fold: "subtotal = foldl ?f 0 (select_cart d uid)"
      by (rule check_stock_fold [OF cs])
    have tax: "o_tax_cents ord = 0" and sub: "o_subtotal_cents ord = subtotal"
      and tot: "o_total_cents ord = js_add (o_subtotal_cents ord) (o_shipping_cents ord)"
      by (simp_all add: ord make_order_def)
    have exact_sub: "(\<forall>r \<in> set (select_cart d uid). \<bar>r_price_cents r\<bar> \<le> 2 ^ 53 \<and> \<bar>r_qty r\<bar> \<le> 2 ^ 53)
            \<and> (\<Sum>r\<leftarrow>select_cart d uid. \<bar>r_price_cents r * r_qty r\<bar>) \<le> 2 ^ 53
          \<longrightarrow> o_subtotal_cents ord = (\<Sum>r\<leftarrow>select_cart d uid. r_price_cents r * r_qty r)"
    proof
      assume b: "(\<forall>r \<in> set (select_cart d uid). \<bar>r_price_cents r\<bar> \<le> 2 ^ 53 \<and> \<bar>r_qty r\<bar> \<le> 2 ^ 53)
            \<and> (\<Sum>r\<leftarrow>select_cart d uid. \<bar>r_price_cents r * r_qty r\<bar>) \<le> 2 ^ 53"
      then have "foldl ?f 0 (select_cart d uid)
                   = 0 + (\<Sum>r\<leftarrow>select_cart d uid. r_price_cents r * r_qty r)"
        by (intro safe_fold_sum) simp_all
      with sub fold show "o_subtotal_cents ord
                            = (\<Sum>r\<leftarrow>select_cart d uid. r_price_cents r * r_qty r)"
        by simp
    qed
    have exact_tot: "\<bar>o_subtotal_cents ord + o_shipping_cents ord\<bar> \<le> 2 ^ 53
          \<longrightarrow> o_total_cents ord
                = o_subtotal_cents ord + o_shipping_cents ord + o_tax_cents ord"
      using tot tax by (simp add: js_add_def js_num_safe)
    from tax tot sub fold exact_sub exact_tot show ?thesis by simp
  qed
qed

theorem order_row_totals_witness:
  "map (\<lambda>ord. (o_subtotal_cents ord, o_shipping_cents ord, o_tax_cents ord, o_total_cents ord))
     (orders (snd (placeOrder None example_uuid 7 (Some ''u1'') (example_body ''eco'' None)
                     (example_store\<lparr> shipping_methods := [example_eco] \<rparr>))))
     = [(1500, 100, 0, 1600)]"
proof -
  let ?d = "example_store\<lparr> shipping_methods := [example_eco] \<rparr>"
  let ?d' = "snd (placeOrder None example_uuid 7 (Some ''u1'') (example_body ''eco'' None) ?d)"
  define ord where "ord = hd (orders ?d')"
  have one: "orders ?d' = [ord]" unfolding ord_def by code_simp
  then have h1: "ord \<in> set (orders ?d')" by simp
  have h2: "ord \<notin> set (orders ?d)" by (simp add: example_store_def)
  have ship: "o_shipping_cents ord = 100" unfolding ord_def by code_simp
  have rows: "\<forall>r \<in> set (select_cart ?d ''u1''). \<bar>r_price_cents r\<bar> \<le> 2 ^ 53 \<and> \<bar>r_qty r\<bar> \<le> 2 ^ 53"
    by code_simp
  have sum: "(\<Sum>r\<leftarrow>select_cart ?d ''u1''. r_price_cents r * r_qty r) = 1500"
    by code_simp
  have asum: "(\<Sum>r\<leftarrow>select_cart ?d ''u1''. \<bar>r_price_cents r * r_qty r\<bar>) \<le> 2 ^ 53"
    by code_simp
  note t = order_row_totals [OF h1 h2]
  from t have tax: "o_tax_cents ord = 0" by (rule conjunct1)
  from t rows asum
  have "o_subtotal_cents ord = (\<Sum>r\<leftarrow>select_cart ?d ''u1''. r_price_cents r * r_qty r)"
    by blast
  then have sub: "o_subtotal_cents ord = 1500" using sum by (rule trans)
  from t have "\<bar>o_subtotal_cents ord + o_shipping_cents ord\<bar> \<le> 2 ^ 53
          \<longrightarrow> o_total_cents ord = o_subtotal_cents ord + o_shipping_cents ord + o_tax_cents ord"
    by blast
  then have tot: "o_total_cents ord = 1600"
    unfolding sub ship tax by simp
  from sub ship tax tot show ?thesis
    unfolding one by simp
qed

text \<open>
  The claim as stated fails at prices the catalog accepts. Three units at \<open>2^53 - 1\<close>
  give a product the double rounds to 27021597764222972, one less than the sum of
  \<open>price_cents * qty\<close>. Two units at \<open>2^52\<close> shipped for 1 cent give a subtotal of
  \<open>2^53\<close>, and the double sum with the shipping is \<open>2^53\<close> again, one less than
  subtotal plus shipping plus tax.
\<close>

theorem order_row_totals_counterexample:
  "map o_subtotal_cents
     (orders (snd (placeOrder None example_uuid 7 (Some ''u1'') (example_body ''std'' None)
                     example_big_store))) = [27021597764222972]
   \<and> (\<Sum>r\<leftarrow>select_cart example_big_store ''u1''. r_price_cents r * r_qty r)
       = 27021597764222973
   \<and> map (\<lambda>ord. (o_subtotal_cents ord, o_shipping_cents ord, o_tax_cents ord, o_total_cents ord))
       (orders (snd (placeOrder None example_uuid 7 (Some ''u1'') (example_body ''eco'' None)
                       example_cent_store)))
       = [(9007199254740992, 1, 0, 9007199254740992)]"
  by code_simp

subsection \<open>C9: the empty cart\<close>

text \<open>
  Claim C9: for a user whose cart has no line to read, place-order returns an error of
  status 400 and leaves the store as it was; for a body that passes the schema the error is
  the empty-cart error. The summary returns the empty-cart error too, and being a read-only
  handler it has no store to return.
\<close>

theorem empty_cart_conflict:
  assumes "select_cart d uid = []"
  shows "(\<exists>e. placeOrder fail uuid now (Some uid) body d = (Inl e, d) \<and> http_status e = 400
              \<and> (checkoutPlaceSchema body \<noteq> None \<longrightarrow> e = CartEmpty))
       \<and> summary (Some uid) d = Inl CartEmpty"
proof (cases "checkoutPlaceSchema body")
  case None
  with assms show ?thesis by (simp add: placeOrder_def summary_def)
next
  case (Some v)
  with assms show ?thesis by (cases v) (simp add: placeOrder_def summary_def)
qed

theorem empty_cart_conflict_witness:
  "placeOrder None example_uuid 7 (Some ''u1'') (example_body ''std'' None)
     (example_store\<lparr> cart_items := [] \<rparr>) = (Inl CartEmpty, example_store\<lparr> cart_items := [] \<rparr>)
   \<and> summary (Some ''u1'') (example_store\<lparr> cart_items := [] \<rparr>) = Inl CartEmpty"
proof -
  have h1: "select_cart (example_store\<lparr> cart_items := [] \<rparr>) ''u1'' = []" by code_simp
  have h2: "checkoutPlaceSchema (example_body ''std'' None) \<noteq> None" by code_simp
  from empty_cart_conflict [OF h1, of None example_uuid 7 "example_body ''std'' None"] h2
  show ?thesis by auto
qed

subsection \<open>C10: the billing address id\<close>

text \<open>
  Claim C10: a non-empty \<open>billing_address_id\<close> never changes whether, or with which
  error, place-order fails: the request fails with the same error as the request without
  it. No address is looked up for it. When the request succeeds the id is stored
  verbatim on the order row and returned; when the field is omitted the order's billing
  address id is the id of the resolved shipping address.
\<close>

theorem billing_address_unchecked:
  assumes "b \<noteq> []"
  shows "(\<forall>e. fst (placeOrder fail uuid now auth (body\<lparr> pb_billing_address_id := Some b \<rparr>) d) = Inl e
             \<longleftrightarrow> fst (placeOrder fail uuid now auth (body\<lparr> pb_billing_address_id := None \<rparr>) d) = Inl e)
       \<and> (\<forall>rep d'. placeOrder fail uuid now auth (body\<lparr> pb_billing_address_id := Some b \<rparr>) d = (Inr rep, d')
             \<longrightarrow> or_billing_address_id rep = b
                \<and> (\<exists>ord. orders d' = orders d @ [ord] \<and> o_billing_address_id ord = b))
       \<and> (\<forall>rep d'. placeOrder fail uuid now auth (body\<lparr> pb_billing_address_id := None \<rparr>) d = (Inr rep, d')
             \<longrightarrow> or_billing_address_id rep = or_shipping_address_id rep
                \<and> (\<exists>ord. orders d' = orders d @ [ord]
                      \<and> o_billing_address_id ord = o_shipping_address_id ord))"
proof (intro conjI allI impI)
  fix e
  show "fst (placeOrder fail uuid now auth (body\<lparr> pb_billing_address_id := Some b \<rparr>) d) = Inl e
          \<longleftrightarrow> fst (placeOrder fail uuid now auth (body\<lparr> pb_billing_address_id := None \<rparr>) d) = Inl e"
    unfolding placeOrder_billing_reply [OF assms]
    by (cases "fst (placeOrder fail uuid now auth (body\<lparr> pb_billing_address_id := None \<rparr>) d)") auto
next
  fix rep d'
  assume po: "placeOrder fail uuid now auth (body\<lparr> pb_billing_address_id := Some b \<rparr>) d = (Inr rep, d')"
  let ?body = "body\<lparr> pb_billing_address_id := Some b \<rparr>"
  from placeOrder_cases [of fail uuid now auth ?body d] po
  obtain uid mid aid billing subtotal addr sm where
    sch: "checkoutPlaceSchema ?body = Some (mid, aid, billing)" and
    eq: "placeOrder fail uuid now auth ?body d =
         (let ord = make_order uuid now uid billing addr sm subtotal
                       (place_shipping_cents d (zone_of addr) sm subtotal)
          in case commit fail uuid now uid ord (select_cart d uid) d of
               (False, d') \<Rightarrow> (Inl InternalError, d')
             | (True, d') \<Rightarrow> (Inr (make_reply ord sm), d'))"
    by auto
  let ?ord = "make_order uuid now uid billing addr sm subtotal
                (place_shipping_cents d (zone_of addr) sm subtotal)"
  from sch have billing: "billing = Some b"
    by (auto simp: checkoutPlaceSchema_def split: option.splits if_splits)
  obtain ok dc where c: "commit fail uuid now uid ?ord (select_cart d uid) d = (ok, dc)"
    by (cases "commit fail uuid now uid ?ord (select_cart d uid) d")
  from po eq c have ok: "ok" and rep: "rep = make_reply ?ord sm" and d': "d' = dc"
    by (auto simp: Let_def split: bool.splits)
  from ok c have nf: "fail \<noteq> Some 0"
    by (auto simp: commit_def)
  have "orders dc = orders d @ [?ord]"
    using orders_commit [of fail uuid now uid ?ord "select_cart d uid" d] c nf by simp
  moreover have "o_billing_address_id ?ord = b"
    using billing assms by (simp add: make_order_def)
  ultimately show "or_billing_address_id rep = b"
    and "\<exists>ord. orders d' = orders d @ [ord] \<and> o_billing_address_id ord = b"
    using rep d' by (auto simp: make_reply_def)
next
  fix rep d'
  assume po: "placeOrder fail uuid now auth (body\<lparr> pb_billing_address_id := None \<rparr>) d = (Inr rep, d')"
  let ?body = "body\<lparr> pb_billing_address_id := None \<rparr>"
  from placeOrder_cases [of fail uuid now auth ?body d] po
  obtain uid mid aid billing subtotal addr sm where
    sch: "checkoutPlaceSchema ?body = Some (mid, aid, billing)" and
    eq: "placeOrder fail uuid now auth ?body d =
         (let ord = make_order uuid now uid billing addr sm subtotal
                       (place_shipping_cents d (zone_of addr) sm subtotal)
          in case commit fail uuid now uid ord (select_cart d uid) d of
               (False, d') \<Rightarrow> (Inl InternalError, d')
             | (True, d') \<Rightarrow> (Inr (make_reply ord sm), d'))"
    by auto
  let ?ord = "make_order uuid now uid billing addr sm subtotal
                (place_shipping_cents d (zone_of addr) sm subtotal)"
  from sch have billing: "billing = None"
    by (auto simp: checkoutPlaceSchema_def split: option.splits if_splits)
  obtain ok dc where c: "commit fail uuid now uid ?ord (select_cart d uid) d = (ok, dc)"
    by (cases "commit fail uuid now uid ?ord (select_cart d uid) d")
  from po eq c have ok: "ok" and rep: "rep = make_reply ?ord sm" and d': "d' = dc"
    by (auto simp: Let_def split: bool.splits)
  from ok c have nf: "fail \<noteq> Some 0"
    by (auto simp: commit_def)
  have "orders dc = orders d @ [?ord]"
    using orders_commit [of fail uuid now uid ?ord "select_cart d uid" d] c nf by simp
  moreover have "o_billing_address_id ?ord = o_shipping_address_id ?ord"
    using billing by (simp add: make_order_def)
  ultimately show "or_billing_address_id rep = or_shipping_address_id rep"
    and "\<exists>ord. orders d' = orders d @ [ord] \<and> o_billing_address_id ord = o_shipping_address_id ord"
    using rep d' by (auto simp: make_reply_def)
qed

theorem billing_address_unchecked_witness:
  "''nowhere'' \<notin> set (map a_id (addresses example_store))
   \<and> map o_billing_address_id
       (orders (snd (placeOrder None example_uuid 7 (Some ''u1'')
                       (example_body ''std'' (Some ''nowhere'')) example_store))) = [''nowhere'']
   \<and> or_billing_address_id
       (projr (fst (placeOrder None example_uuid 7 (Some ''u1'')
                      (example_body ''std'' (Some ''nowhere'')) example_store))) = ''nowhere''"
proof -
  let ?body = "example_body ''std'' None"
  let ?r = "placeOrder None example_uuid 7 (Some ''u1'')
              (?body\<lparr> pb_billing_address_id := Some ''nowhere'' \<rparr>) example_store"
  have b: "''nowhere'' \<noteq> []" by simp
  have absent: "''nowhere'' \<notin> set (map a_id (addresses example_store))" by code_simp
  have body: "example_body ''std'' (Some ''nowhere'')
                = ?body\<lparr> pb_billing_address_id := Some ''nowhere'' \<rparr>"
    by (simp add: example_body_def)
  have ok: "?r = (Inr (projr (fst ?r)), snd ?r)" by code_simp
  have none: "orders example_store = []" by (simp add: example_store_def)
  from billing_address_unchecked [OF b, of None example_uuid 7 "Some ''u1''" ?body example_store]
  have "\<forall>rep d'. ?r = (Inr rep, d') \<longrightarrow>
          or_billing_address_id rep = ''nowhere'' \<and>
          (\<exists>ord. orders d' = orders example_store @ [ord] \<and> o_billing_address_id ord = ''nowhere'')"
    by blast
  with ok have "or_billing_address_id (projr (fst ?r)) = ''nowhere'' \<and>
          (\<exists>ord. orders (snd ?r) = orders example_store @ [ord]
                 \<and> o_billing_address_id ord = ''nowhere'')"
    by blast
  with none absent show ?thesis
    unfolding body by auto
qed

end
